theory Spec2Isabelle
  imports Complex_Main
begin

section \<open>The scripting contract of \<open>Editor.d.ts\<close> and \<open>Prompt.d.ts\<close>\<close>

text \<open>
  Both source files are ambient declarations: type aliases and two classes whose members
  have signatures and no bodies. What the files fix is therefore a typing contract, and
  that contract is what is embedded here: the type expressions that occur in the
  declarations, the values a script can hold, the relation "value \<open>v\<close> inhabits type
  \<open>T\<close>", and the two classes as tables from member name to signature, in source order.
\<close>

subsection \<open>Type expressions\<close>

text \<open>
  Only the forms that the two files use: the primitive types, string literal types, unions,
  \<open>Array<T>\<close> (also written \<open>T[]\<close>), the index signature \<open>{ [x: string]: T }\<close>, object
  type literals with required and optional (\<open>?\<close>) properties, and references to classes
  by name (\<open>Draft\<close>, \<open>Date\<close>, \<open>Prompt\<close>).
\<close>

datatype ts_type =
    TString
  | TNumber
  | TBoolean
  | TVoid
  | TAny
  | TLiteral string
  | TUnion "ts_type list"
  | TArray ts_type
  | TIndex ts_type
  | TObject "ts_prop list"
  | TRef string
and ts_prop = Prop string bool ts_type

subsection \<open>Values\<close>

text \<open>
  The number type of the language is a binary64 float. No arithmetic is done on it here;
  a number is kept as its mathematical value, or one of the three special values.
\<close>

datatype number = Finite rat | NaN | PosInfinity | NegInfinity

text \<open>An object carries the name of its class and its own properties.\<close>

datatype js_value =
    VUndefined
  | VBoolean bool
  | VNumber number
  | VString string
  | VArray "js_value list"
  | VObject string "(string \<times> js_value) list"

subsection \<open>Inhabitation\<close>

text \<open>
  The strict reading of the declarations: \<open>undefined\<close> inhabits \<open>void\<close> and \<open>any\<close>, and
  may stand for an optional property or parameter, nothing else. An object is an instance
  of the class it names; a plain object names \<open>Object\<close>.

  An index signature of type \<open>any\<close>, the only one in the two files, admits every value but
  a primitive. An object type literal asks of every declared property that it is present
  with a value of its type, or optional and absent or \<open>undefined\<close>. All object type
  literals of the two files are weak (every property optional): such a type admits an
  object only if the object has no property at all or has one of the declared ones, and
  admits no primitive and no array.
\<close>

fun is_optional :: "ts_prop \<Rightarrow> bool" where
  "is_optional (Prop n opt t) = opt"

fun prop_name :: "ts_prop \<Rightarrow> string" where
  "prop_name (Prop n opt t) = n"

definition weak :: "ts_prop list \<Rightarrow> bool" where
  "weak props = (props \<noteq> [] \<and> list_all is_optional props)"

definition common_property :: "(string \<times> js_value) list \<Rightarrow> ts_prop list \<Rightarrow> bool" where
  "common_property ps props = list_ex (\<lambda>k. k \<in> set (map prop_name props)) (map fst ps)"

fun has_type :: "js_value \<Rightarrow> ts_type \<Rightarrow> bool"
  and has_prop :: "(string \<times> js_value) list \<Rightarrow> ts_prop \<Rightarrow> bool" where
  "has_type v TString = (case v of VString s \<Rightarrow> True | _ \<Rightarrow> False)"
| "has_type v TNumber = (case v of VNumber n \<Rightarrow> True | _ \<Rightarrow> False)"
| "has_type v TBoolean = (case v of VBoolean b \<Rightarrow> True | _ \<Rightarrow> False)"
| "has_type v TVoid = (v = VUndefined)"
| "has_type v TAny = True"
| "has_type v (TLiteral l) = (v = VString l)"
| "has_type v (TUnion ts) = list_ex (has_type v) ts"
| "has_type v (TArray t) =
     (case v of VArray vs \<Rightarrow> list_all (\<lambda>x. has_type x t) vs | _ \<Rightarrow> False)"
| "has_type v (TIndex t) =
     (case v of
        VObject c ps \<Rightarrow>
          t = TAny \<or> (c = ''Object'' \<and> list_all (\<lambda>x. has_type x t) (map snd ps))
      | VArray vs \<Rightarrow> t = TAny
      | _ \<Rightarrow> False)"
| "has_type v (TObject props) =
     (case v of
        VObject c ps \<Rightarrow>
          list_all (has_prop ps) props
          \<and> (if weak props then (c = ''Object'' \<and> ps = []) \<or> common_property ps props
             else True)
      | VUndefined \<Rightarrow> False
      | _ \<Rightarrow> props = [])"
| "has_type v (TRef c) = (case v of VObject c' ps \<Rightarrow> c' = c | _ \<Rightarrow> False)"
| "has_prop ps (Prop n opt t) =
     (case map_of ps n of
        None \<Rightarrow> opt
      | Some x \<Rightarrow> has_type x t \<or> (opt \<and> x = VUndefined))"

subsection \<open>Type aliases of the two files\<close>

text \<open>\<^verbatim>\<open>type selectionRange = Array<number>\<close> (Editor.d.ts)\<close>

definition selectionRange :: ts_type where
  "selectionRange = TArray TNumber"

text \<open>The two unions of string literals at the head of Prompt.d.ts, in source order.\<close>

definition keyboardTypes :: ts_type where
  "keyboardTypes = TUnion
     [TLiteral ''default'',
      TLiteral ''numbersAndPunctuation'',
      TLiteral ''numberPad'',
      TLiteral ''phonePad'',
      TLiteral ''namePhonePad'',
      TLiteral ''emailAddress'',
      TLiteral ''decimalPad'',
      TLiteral ''webSearch'',
      TLiteral ''URL'']"

definition capitalizationTypes :: ts_type where
  "capitalizationTypes = TUnion [TLiteral ''none'', TLiteral ''sentences'', TLiteral ''words'']"

subsection \<open>Class declarations\<close>

text \<open>
  A parameter has a name, an optional mark (\<open>?\<close>) and a type. A member is a property, a
  method or a static method. A class declaration lists its members in source order.
\<close>

datatype param = Param string bool ts_type

datatype member =
    Property ts_type
  | Method "param list" ts_type
  | StaticMethod "param list" ts_type

type_synonym class_decl = "(string \<times> member) list"

text \<open>\<^verbatim>\<open>declare class Editor\<close>\<close>

definition Editor :: class_decl where
  "Editor =
    [(''focusModeEnabled'', Property TBoolean),
     (''linkModeEnabled'', Property TBoolean),
     (''isActive'', Property TBoolean),
     (''new'', Method [] TVoid),
     (''load'', Method [Param ''draft'' False (TRef ''Draft'')] TVoid),
     (''save'', Method [] TVoid),
     (''undo'', Method [] TVoid),
     (''redo'', Method [] TVoid),
     (''activate'', Method [] TVoid),
     (''deactivate'', Method [] TVoid),
     (''showArrange'', Method [] TVoid),
     (''arrange'', Method [Param ''text'' False TString] TString),
     (''showFind'', Method [] TVoid),
     (''showDictate'', Method [] TVoid),
     (''dictate'', Method [Param ''locale'' True TString] TString),
     (''getText'', Method [] TString),
     (''setText'', Method [Param ''text'' False TString] TVoid),
     (''getSelectedText'', Method [] TString),
     (''setSelectedText'', Method [Param ''text'' False TString] TVoid),
     (''getSelectedLineRange'', Method [] selectionRange),
     (''getSelectedRange'', Method [] selectionRange),
     (''setSelectedRange'',
        Method [Param ''location'' False TNumber, Param ''length'' False TNumber] TVoid),
     (''getTextInRange'',
        Method [Param ''location'' False TNumber, Param ''length'' False TNumber] TString),
     (''setTextInRange'',
        Method [Param ''location'' False TNumber, Param ''length'' False TNumber,
                Param ''text'' False TString] TVoid)]"

text \<open>\<^verbatim>\<open>declare class Prompt\<close>. The option types of the \<open>add...\<close> methods first.\<close>

definition addLabel_options :: ts_type where
  "addLabel_options = TObject
     [Prop ''textSize'' True
        (TUnion [TLiteral ''body'', TLiteral ''caption'', TLiteral ''headline''])]"

definition addTextField_options :: ts_type where
  "addTextField_options = TObject
     [Prop ''placeholder'' True TString,
      Prop ''autocorrect'' True TBoolean,
      Prop ''autocapitalization'' True capitalizationTypes,
      Prop ''keyboard'' True keyboardTypes,
      Prop ''wantsFocus'' True TBoolean]"

definition addTextView_options :: ts_type where
  "addTextView_options = TObject
     [Prop ''height'' True TNumber,
      Prop ''autocorrect'' True TBoolean,
      Prop ''autocapitalization'' True capitalizationTypes,
      Prop ''keyboard'' True keyboardTypes,
      Prop ''wantsFocus'' True TBoolean]"

definition addDatePicker_options :: ts_type where
  "addDatePicker_options = TObject
     [Prop ''mode'' True
        (TUnion [TLiteral ''date'', TLiteral ''time'', TLiteral ''dateAndTime'']),
      Prop ''minimumDate'' True (TRef ''Date''),
      Prop ''maximumDate'' True (TRef ''Date''),
      Prop ''minuteInterval'' True TNumber]"

definition Prompt :: class_decl where
  "Prompt =
    [(''title'', Property TString),
     (''message'', Property TString),
     (''isCancellable'', Property TBoolean),
     (''fieldValues'', Property (TIndex TAny)),
     (''buttonPressed'', Property TString),
     (''addLabel'',
        Method [Param ''name'' False TString, Param ''label'' False TString,
                Param ''options'' True addLabel_options] TVoid),
     (''addTextField'',
        Method [Param ''name'' False TString, Param ''label'' False TString,
                Param ''initialText'' False TString,
                Param ''options'' True addTextField_options] TVoid),
     (''addTextView'',
        Method [Param ''name'' False TString, Param ''label'' False TString,
                Param ''initialText'' False TString,
                Param ''options'' True addTextView_options] TVoid),
     (''addPasswordField'',
        Method [Param ''name'' False TString, Param ''label'' False TString,
                Param ''initialValue'' False TString] TVoid),
     (''addSwitch'',
        Method [Param ''name'' False TString, Param ''label'' False TString,
                Param ''initialValue'' False TBoolean] TVoid),
     (''addDatePicker'',
        Method [Param ''name'' False TString, Param ''label'' False TString,
                Param ''initialDate'' False (TRef ''Date''),
                Param ''options'' True addDatePicker_options] TVoid),
     (''addPicker'',
        Method [Param ''name'' False TString, Param ''label'' False TString,
                Param ''columns'' False (TArray (TArray TString)),
                Param ''selectedRows'' False (TArray TNumber)] TVoid),
     (''addSelect'',
        Method [Param ''name'' False TString, Param ''label'' False TString,
                Param ''values'' False (TArray TString),
                Param ''selectedValues'' False (TArray TString),
                Param ''allowMultiple'' False TBoolean] TVoid),
     (''addButton'',
        Method [Param ''name'' False TString, Param ''value'' True TString,
                Param ''isDefault'' True TBoolean] TVoid),
     (''show'', Method [] TBoolean),
     (''create'', StaticMethod [] (TRef ''Prompt''))]"

text \<open>\<^verbatim>\<open>declare const editor: Editor\<close>\<close>

definition editor :: ts_type where
  "editor = TRef ''Editor''"

subsection \<open>Reading a declaration\<close>

definition member_of :: "class_decl \<Rightarrow> string \<Rightarrow> member option" where
  "member_of C n = map_of C n"

fun is_method :: "member \<Rightarrow> bool" where
  "is_method (Property T) = False"
| "is_method (Method ps r) = True"
| "is_method (StaticMethod ps r) = True"

fun result_type :: "member \<Rightarrow> ts_type" where
  "result_type (Property T) = T"
| "result_type (Method ps r) = r"
| "result_type (StaticMethod ps r) = r"

fun params_of :: "member \<Rightarrow> param list" where
  "params_of (Property T) = []"
| "params_of (Method ps r) = ps"
| "params_of (StaticMethod ps r) = ps"


text \<open>The class names a type expression refers to.\<close>

fun refs_of :: "ts_type \<Rightarrow> string list"
  and refs_of_prop :: "ts_prop \<Rightarrow> string list" where
  "refs_of TString = []"
| "refs_of TNumber = []"
| "refs_of TBoolean = []"
| "refs_of TVoid = []"
| "refs_of TAny = []"
| "refs_of (TLiteral l) = []"
| "refs_of (TUnion ts) = concat (map refs_of ts)"
| "refs_of (TArray t) = refs_of t"
| "refs_of (TIndex t) = refs_of t"
| "refs_of (TObject props) = concat (map refs_of_prop props)"
| "refs_of (TRef c) = [c]"
| "refs_of_prop (Prop n opt t) = refs_of t"

fun param_type :: "param \<Rightarrow> ts_type" where
  "param_type (Param n opt t) = t"

definition member_refs :: "member \<Rightarrow> string list" where
  "member_refs m = concat (map (\<lambda>p. refs_of (param_type p)) (params_of m)) @ refs_of (result_type m)"

subsection \<open>Calls\<close>

text \<open>
  A call is accepted by a parameter list when the arguments, in order, inhabit the
  parameter types; an optional parameter may be left out at the end or given as
  \<open>undefined\<close>; no argument may be left over.
\<close>

fun check_args :: "param list \<Rightarrow> js_value list \<Rightarrow> bool" where
  "check_args [] [] = True"
| "check_args [] (v # vs) = False"
| "check_args (Param n opt t # ps) [] = (opt \<and> check_args ps [])"
| "check_args (Param n opt t # ps) (v # vs) =
     ((has_type v t \<or> (opt \<and> v = VUndefined)) \<and> check_args ps vs)"

definition accepts_call :: "class_decl \<Rightarrow> string \<Rightarrow> js_value list \<Rightarrow> bool" where
  "accepts_call C n args =
     (case member_of C n of
        None \<Rightarrow> False
      | Some m \<Rightarrow> is_method m \<and> check_args (params_of m) args)"

subsection \<open>What the contract is compared with\<close>

text \<open>
  The result types that stand for a plain value or for nothing, and the classes that a
  signature may name.
\<close>

definition plain_results :: "ts_type list" where
  "plain_results = [TBoolean, TString, selectionRange, TRef ''Prompt'', TVoid]"

definition known_classes :: "string list" where
  "known_classes = [''Draft'', ''Date'', ''Prompt'']"

definition plain_member :: "string \<times> member \<Rightarrow> bool" where
  "plain_member d =
     ((is_method (snd d) \<longrightarrow> result_type (snd d) \<in> set plain_results)
      \<and> list_all (\<lambda>c. c \<in> set known_classes) (member_refs (snd d)))"


section \<open>Properties of the contract\<close>

subsection \<open>Inhabitants of the option enumerations\<close>

lemma inj_VString: "inj VString"
  by (simp add: inj_def)

lemma keyboardTypes_values:
  "{v. has_type v keyboardTypes} =
     VString ` {''default'', ''numbersAndPunctuation'', ''numberPad'', ''phonePad'',
                ''namePhonePad'', ''emailAddress'', ''decimalPad'', ''webSearch'', ''URL''}"
  by (auto simp add: keyboardTypes_def)

lemma capitalizationTypes_values:
  "{v. has_type v capitalizationTypes} = VString ` {''none'', ''sentences'', ''words''}"
  by (auto simp add: capitalizationTypes_def)

subsection \<open>Looking members up\<close>


lemma range_methods:
  "member_of Editor ''setSelectedRange'' =
     Some (Method [Param ''location'' False TNumber, Param ''length'' False TNumber] TVoid)"
  "member_of Editor ''getTextInRange'' =
     Some (Method [Param ''location'' False TNumber, Param ''length'' False TNumber] TString)"
  "member_of Editor ''setTextInRange'' =
     Some (Method [Param ''location'' False TNumber, Param ''length'' False TNumber,
                   Param ''text'' False TString] TVoid)"
  by (simp_all add: member_of_def Editor_def)

subsection \<open>Every member is plain\<close>

lemma Editor_plain: "list_all plain_member Editor"
  by (simp add: Editor_def plain_member_def plain_results_def known_classes_def
      member_refs_def selectionRange_def)

lemma Prompt_plain: "list_all plain_member Prompt"
  by (simp add: Prompt_def plain_member_def plain_results_def known_classes_def
      member_refs_def selectionRange_def addLabel_options_def addTextField_options_def
      addTextView_options_def addDatePicker_options_def keyboardTypes_def
      capitalizationTypes_def)

lemma member_plain:
  assumes "d \<in> set (Editor @ Prompt)"
  shows "plain_member d"
  using assms Editor_plain Prompt_plain by (auto simp add: list_all_iff)

subsection \<open>No error in the contract (C7)\<close>

text \<open>
  C7: no operation of Prompt or Editor signals an error. Every declared method, static or
  not, has one of the result types boolean, string, \<open>selectionRange\<close>, Prompt or void, and
  the only classes that any member's signature names are Draft, Date and Prompt, so no error
  type occurs anywhere. The three range operations accept every pair of numbers as
  \<open>location\<close> and \<open>length\<close>, within bounds or not, with the same result type.
\<close>

theorem no_error_signalled:
  "(d \<in> set (Editor @ Prompt) \<longrightarrow>
      (is_method (snd d) \<longrightarrow> result_type (snd d) \<in> set plain_results)
      \<and> set (member_refs (snd d)) \<subseteq> set known_classes)
   \<and> (accepts_call Editor ''setSelectedRange'' [VNumber a, VNumber b]
      \<and> map_option result_type (member_of Editor ''setSelectedRange'') = Some TVoid)
   \<and> (accepts_call Editor ''getTextInRange'' [VNumber a, VNumber b]
      \<and> map_option result_type (member_of Editor ''getTextInRange'') = Some TString)
   \<and> (accepts_call Editor ''setTextInRange'' [VNumber a, VNumber b, VString t]
      \<and> map_option result_type (member_of Editor ''setTextInRange'') = Some TVoid)"
proof -
  have all: "d \<in> set (Editor @ Prompt) \<longrightarrow>
      (is_method (snd d) \<longrightarrow> result_type (snd d) \<in> set plain_results)
      \<and> set (member_refs (snd d)) \<subseteq> set known_classes"
    using member_plain [of d] by (auto simp add: plain_member_def list_all_iff)
  have r1: "accepts_call Editor ''setSelectedRange'' [VNumber a, VNumber b]
      \<and> map_option result_type (member_of Editor ''setSelectedRange'') = Some TVoid"
    by (simp add: accepts_call_def range_methods)
  have r2: "accepts_call Editor ''getTextInRange'' [VNumber a, VNumber b]
      \<and> map_option result_type (member_of Editor ''getTextInRange'') = Some TString"
    by (simp add: accepts_call_def range_methods)
  have r3: "accepts_call Editor ''setTextInRange'' [VNumber a, VNumber b, VString t]
      \<and> map_option result_type (member_of Editor ''setTextInRange'') = Some TVoid"
    by (simp add: accepts_call_def range_methods)
  show ?thesis
    by (rule conjI [OF all conjI [OF r1 conjI [OF r2 r3]]])
qed

theorem no_error_signalled_witness:
  "(''show'', Method [] TBoolean) \<in> set (Editor @ Prompt)
   \<and> result_type (Method [] TBoolean) \<in> set plain_results
   \<and> accepts_call Editor ''setSelectedRange'' [VNumber (Finite (- 1)), VNumber PosInfinity]
   \<and> accepts_call Editor ''getTextInRange'' [VNumber (Finite (- 1)), VNumber PosInfinity]"
proof -
  have h: "(''show'', Method [] TBoolean) \<in> set (Editor @ Prompt)"
    by (simp add: Prompt_def)
  show ?thesis
    using h no_error_signalled [of "(''show'', Method [] TBoolean)" "Finite (- 1)" PosInfinity "[]"]
    by simp
qed

subsection \<open>The option enumerations (C8)\<close>

text \<open>
  C8: the values of \<open>keyboardTypes\<close> are exactly the nine strings default,
  numbersAndPunctuation, numberPad, phonePad, namePhonePad, emailAddress, decimalPad,
  webSearch and URL, and the values of \<open>capitalizationTypes\<close> are exactly the three
  strings none, sentences and words: nothing else is admitted, and the listed values are
  all there and pairwise different.
\<close>

theorem option_enumerations_exact:
  "(has_type v keyboardTypes \<longleftrightarrow>
      v \<in> VString ` {''default'', ''numbersAndPunctuation'', ''numberPad'', ''phonePad'',
                      ''namePhonePad'', ''emailAddress'', ''decimalPad'', ''webSearch'', ''URL''})
   \<and> card {x. has_type x keyboardTypes} = 9
   \<and> (has_type w capitalizationTypes \<longleftrightarrow> w \<in> VString ` {''none'', ''sentences'', ''words''})
   \<and> card {x. has_type x capitalizationTypes} = 3"
proof -
  have k: "has_type v keyboardTypes \<longleftrightarrow>
      v \<in> VString ` {''default'', ''numbersAndPunctuation'', ''numberPad'', ''phonePad'',
                      ''namePhonePad'', ''emailAddress'', ''decimalPad'', ''webSearch'', ''URL''}"
    by (auto simp add: keyboardTypes_def)
  have c: "has_type w capitalizationTypes \<longleftrightarrow> w \<in> VString ` {''none'', ''sentences'', ''words''}"
    by (auto simp add: capitalizationTypes_def)
  have kc: "card {x. has_type x keyboardTypes} = 9"
    unfolding keyboardTypes_values by (simp add: card_image inj_VString inj_on_def)
  have cc: "card {x. has_type x capitalizationTypes} = 3"
    unfolding capitalizationTypes_values by (simp add: card_image inj_on_def)
  show ?thesis
    by (rule conjI [OF k conjI [OF kc conjI [OF c cc]]])
qed

theorem option_enumerations_exact_witness:
  "has_type (VString ''URL'') keyboardTypes \<and> \<not> has_type (VString ''url'') keyboardTypes
   \<and> has_type (VString ''words'') capitalizationTypes
   \<and> \<not> has_type (VString ''default'') capitalizationTypes"
  using option_enumerations_exact [of "VString ''URL''" "VString ''words''"]
        option_enumerations_exact [of "VString ''url''" "VString ''default''"]
  by simp

subsection \<open>Find mode (C9)\<close>


end
